theory Spec2Isabelle
  imports Complex_Main
begin

section \<open>Research analysis pipeline and research service\<close>

text \<open>
  A shallow embedding of \<^verbatim>\<open>app/ml/research_analyzer.py\<close> (class ResearchAnalyzer) and of
  the methods \<^verbatim>\<open>update\<close> and \<^verbatim>\<open>find_similar\<close> of
  \<^verbatim>\<open>app/services/research_service.py\<close> (class ResearchService).

  Conventions of the embedding:
  \<^item> a Python float is a \<open>real\<close>: rounding, infinities and NaN are not part of the model;
  \<^item> a Python str is a \<open>string\<close> whose characters are read as code points below 256;
  \<^item> a raised exception is the \<open>Inl\<close> branch of a sum, a returned value the \<open>Inr\<close> branch;
  \<^item> the pre-trained networks (tokenizer and SciBERT, the sentence transformer, the
    universal sentence encoder, TF-IDF with LDA) and the search index are outside the
    repository: they are fields of a record of fallible functions;
  \<^item> eight helper methods that the analyzer calls on \<^verbatim>\<open>self\<close> are defined nowhere in the
    repository (\<^verbatim>\<open>calculate_uniqueness\<close>, \<^verbatim>\<open>assess_innovation\<close>,
    \<^verbatim>\<open>identify_methodology_types\<close>, \<^verbatim>\<open>assess_methodology_robustness\<close>,
    \<^verbatim>\<open>assess_validation_methods\<close>, \<^verbatim>\<open>predict_academic_impact\<close>,
    \<^verbatim>\<open>predict_practical_impact\<close>, \<^verbatim>\<open>predict_citation_potential\<close>); they are fields
    of the same record, so every theorem holds for whatever they compute, including the
    case where each of them raises.
\<close>

subsection \<open>Values, errors and inputs\<close>

datatype error =
    KeyError
  | TypeError
  | IndexError
  | AttributeError
  | ModelError string
  | SearchError string

text \<open>The values a sub-result dictionary holds: a float, or a list of labels.\<close>

datatype pyval = PFloat real | PStrs "string list"

type_synonym subresult = "string \<rightharpoonup> pyval"

text \<open>The dictionary \<^verbatim>\<open>research_data\<close> with its four keys, as the callers build it.\<close>

record analysis_input =
  title :: string
  abstract :: string
  content :: string
  keyword_list :: "string list"

text \<open>The dictionary returned by \<^verbatim>\<open>analyze_research\<close>: five literal keys.\<close>

record analysis_result =
  content_quality :: subresult
  novelty :: subresult
  methodology :: subresult
  impact_potential :: subresult
  overall_score :: real

type_synonym topics = "(string \<times> string list \<times> real) list"

record models =
  bert_embeddings :: "string \<Rightarrow> error + real list list"
  sentence_encode :: "string \<Rightarrow> error + real list"
  use_model :: "string list \<Rightarrow> error + real list list"
  calculate_uniqueness :: "real list \<Rightarrow> error + real"
  assess_innovation :: "analysis_input \<Rightarrow> error + real"
  identify_methodology_types :: "string \<Rightarrow> error + string list"
  assess_methodology_robustness :: "string \<Rightarrow> error + real"
  assess_validation_methods :: "string \<Rightarrow> error + real"
  predict_academic_impact :: "real list \<Rightarrow> error + real"
  predict_practical_impact :: "analysis_input \<Rightarrow> error + real"
  predict_citation_potential :: "analysis_input \<Rightarrow> error + real"
  lda_topics :: "string \<Rightarrow> error + topics"

text \<open>
  \<open>bert_embeddings text\<close> stands for the tokenizer, the SciBERT forward pass and
  \<^verbatim>\<open>outputs.last_hidden_state.mean(dim=1)\<close>: one row per batch element.
  \<open>lda_topics\<close> stands for the body of \<^verbatim>\<open>extract_topics\<close>, which is scikit-learn's
  vectorizer and topic model refitted on the one document.
\<close>

subsection \<open>String operations of Python\<close>

text \<open>\<^verbatim>\<open>s.split(c)\<close> for a separator of one character: never the empty list.\<close>

fun split_on :: "char \<Rightarrow> string \<Rightarrow> string list" where
  "split_on c [] = [[]]"
| "split_on c (x # xs) =
     (if x = c then [] # split_on c xs
      else (case split_on c xs of
              [] \<Rightarrow> [[x]]
            | w # ws \<Rightarrow> (x # w) # ws))"

text \<open>\<^verbatim>\<open>str.isspace\<close> and \<^verbatim>\<open>str.lower\<close> on code points below 256.\<close>

definition isspace :: "char \<Rightarrow> bool" where
  "isspace c =
     (let n = (of_char c :: nat)
      in (9 \<le> n \<and> n \<le> 13) \<or> (28 \<le> n \<and> n \<le> 32) \<or> n = 133 \<or> n = 160)"

definition lower_char :: "char \<Rightarrow> char" where
  "lower_char c =
     (let n = (of_char c :: nat)
      in if (65 \<le> n \<and> n \<le> 90) \<or> (192 \<le> n \<and> n \<le> 222 \<and> n \<noteq> 215)
         then char_of (n + 32) else c)"

definition lower :: "string \<Rightarrow> string" where
  "lower s = map lower_char s"

text \<open>
  \<^verbatim>\<open>s.split()\<close> with no separator: the maximal runs of characters that are not white
  space. \<open>cur\<close> is the word being read.
\<close>

fun split_words :: "string \<Rightarrow> string \<Rightarrow> string list" where
  "split_words cur [] = (if cur = [] then [] else [cur])"
| "split_words cur (c # cs) =
     (if isspace c
      then (if cur = [] then split_words [] cs else cur # split_words [] cs)
      else split_words (cur @ [c]) cs)"

definition split_ws :: "string \<Rightarrow> string list" where
  "split_ws s = split_words [] s"

subsection \<open>Tensor arithmetic used by the helper methods\<close>

text \<open>
  \<^verbatim>\<open>np.mean\<close>, \<^verbatim>\<open>torch.mean\<close> and \<^verbatim>\<open>tf.reduce_mean\<close>. The mean of no number at all is
  NaN in the libraries and 0 here; the analyzer takes the mean of two or three scores, of
  the one row of a batch, and of a matrix with at least two rows.
\<close>

definition mean :: "real list \<Rightarrow> real" where
  "mean xs = sum_list xs / real (length xs)"

text \<open>
  \<^verbatim>\<open>torch.std\<close> along a row, with Bessel's correction (the default). A row with fewer
  than two entries gives NaN in torch, which the reals cannot express; the encoder's rows
  have 768 entries.
\<close>

definition std :: "real list \<Rightarrow> real" where
  "std xs = sqrt (sum_list (map (\<lambda>x. (x - mean xs)\<^sup>2) xs) / (real (length xs) - 1))"

definition dot :: "real list \<Rightarrow> real list \<Rightarrow> real" where
  "dot xs ys = sum_list (map (\<lambda>(x, y). x * y) (zip xs ys))"

text \<open>\<^verbatim>\<open>tf.matmul(e, e, transpose_b=True)\<close> and \<^verbatim>\<open>tf.reduce_mean\<close> of a matrix.\<close>

definition matmul_transpose :: "real list list \<Rightarrow> real list list" where
  "matmul_transpose e = map (\<lambda>a. map (\<lambda>b. dot a b) e) e"

definition reduce_mean :: "real list list \<Rightarrow> real" where
  "reduce_mean m = mean (concat m)"

subsection \<open>Helper methods of the analyzer\<close>

definition calculate_clarity_score :: "real list list \<Rightarrow> real" where
  "calculate_clarity_score embeddings = mean (map std embeddings)"

definition calculate_coherence_score :: "models \<Rightarrow> string \<Rightarrow> error + real" where
  "calculate_coherence_score m text =
     (let sentences = split_on CHR ''.'' text
      in if length sentences < 2 then Inr (8 / 10)
         else (case use_model m sentences of
                 Inl e \<Rightarrow> Inl e
               | Inr embeddings \<Rightarrow> Inr (reduce_mean (matmul_transpose embeddings))))"

definition get_technical_terms :: "string set" where
  "get_technical_terms =
     {''algorithm'', ''methodology'', ''framework'', ''analysis'',
      ''model'', ''system'', ''data'', ''research'', ''study'',
      ''implementation'', ''results'', ''performance'', ''evaluation''}"

definition count_technical_terms :: "string \<Rightarrow> nat" where
  "count_technical_terms text = card (set (split_ws (lower text)) \<inter> get_technical_terms)"

definition assess_technical_depth :: "string \<Rightarrow> real" where
  "assess_technical_depth text = min 1 (real (count_technical_terms text) / 100)"

text \<open>
  The aggregate key looked up in a sub-result: \<^verbatim>\<open>'overall_' + metric.split('_')[0]\<close>.
  \<open>split_on\<close> never returns the empty list, so the index 0 exists.
\<close>

definition overall_key :: "string \<Rightarrow> string" where
  "overall_key metric = ''overall_'' @ hd (split_on CHR ''_'' metric)"

text \<open>The items of the dictionary \<^verbatim>\<open>weights\<close>, in insertion order.\<close>

definition weights :: "(string \<times> real) list" where
  "weights =
     [(''content_quality'', 3 / 10),
      (''novelty'', 25 / 100),
      (''methodology'', 25 / 100),
      (''impact_potential'', 2 / 10)]"

text \<open>\<^verbatim>\<open>value * weight\<close>: a list times a float raises TypeError.\<close>

fun times_weight :: "pyval \<Rightarrow> real \<Rightarrow> error + real" where
  "times_weight (PFloat x) w = Inr (x * w)"
| "times_weight (PStrs _) w = Inl TypeError"

text \<open>
  The loop of \<^verbatim>\<open>calculate_overall_score\<close> over \<^verbatim>\<open>zip(results, weights.items())\<close>;
  \<open>scores\<close> is the list being appended to. Every element of \<open>results\<close> is a dictionary
  by its type, so the test \<^verbatim>\<open>isinstance(result, dict)\<close> is true.
\<close>

fun score_loop :: "(subresult \<times> string \<times> real) list \<Rightarrow> real list \<Rightarrow> error + real list" where
  "score_loop [] scores = Inr scores"
| "score_loop ((result, metric, weight) # rest) scores =
     (case result (overall_key metric) of
        None \<Rightarrow> score_loop rest scores
      | Some v \<Rightarrow>
          (case times_weight v weight of
             Inl e \<Rightarrow> Inl e
           | Inr s \<Rightarrow> score_loop rest (scores @ [s])))"

definition aggregate :: "(string \<times> real) list \<Rightarrow> subresult list \<Rightarrow> error + real" where
  "aggregate ws results =
     (case score_loop (zip results ws) [] of
        Inl e \<Rightarrow> Inl e
      | Inr scores \<Rightarrow> Inr (sum_list scores))"

definition calculate_overall_score :: "subresult list \<Rightarrow> error + real" where
  "calculate_overall_score results = aggregate weights results"

subsection \<open>The four scoring sub-routines\<close>

definition scored_text :: "analysis_input \<Rightarrow> string" where
  "scored_text d = title d @ '' '' @ abstract d"

definition analyze_content_quality :: "models \<Rightarrow> analysis_input \<Rightarrow> error + subresult" where
  "analyze_content_quality m d =
     (let text = scored_text d
      in case bert_embeddings m text of
           Inl e \<Rightarrow> Inl e
         | Inr embeddings \<Rightarrow>
             (let clarity_score = calculate_clarity_score embeddings
              in case calculate_coherence_score m text of
                   Inl e \<Rightarrow> Inl e
                 | Inr coherence_score \<Rightarrow>
                     (let technical_depth = assess_technical_depth text
                      in Inr [''clarity'' \<mapsto> PFloat clarity_score,
                              ''coherence'' \<mapsto> PFloat coherence_score,
                              ''technical_depth'' \<mapsto> PFloat technical_depth,
                              ''overall_quality'' \<mapsto>
                                PFloat (mean [clarity_score, coherence_score, technical_depth])])))"

definition analyze_novelty :: "models \<Rightarrow> analysis_input \<Rightarrow> error + subresult" where
  "analyze_novelty m d =
     (let text = scored_text d
      in case sentence_encode m text of
           Inl e \<Rightarrow> Inl e
         | Inr embeddings \<Rightarrow>
             (case calculate_uniqueness m embeddings of
                Inl e \<Rightarrow> Inl e
              | Inr uniqueness_score \<Rightarrow>
                  (case assess_innovation m d of
                     Inl e \<Rightarrow> Inl e
                   | Inr innovation_score \<Rightarrow>
                       Inr [''uniqueness'' \<mapsto> PFloat uniqueness_score,
                            ''innovation'' \<mapsto> PFloat innovation_score,
                            ''overall_novelty'' \<mapsto>
                              PFloat (mean [uniqueness_score, innovation_score])])))"

definition analyze_methodology :: "models \<Rightarrow> analysis_input \<Rightarrow> error + subresult" where
  "analyze_methodology m d =
     (case identify_methodology_types m (content d) of
        Inl e \<Rightarrow> Inl e
      | Inr methodology_types \<Rightarrow>
          (case assess_methodology_robustness m (content d) of
             Inl e \<Rightarrow> Inl e
           | Inr robustness_score \<Rightarrow>
               (case assess_validation_methods m (content d) of
                  Inl e \<Rightarrow> Inl e
                | Inr validation_score \<Rightarrow>
                    Inr [''methodology_types'' \<mapsto> PStrs methodology_types,
                         ''robustness'' \<mapsto> PFloat robustness_score,
                         ''validation'' \<mapsto> PFloat validation_score,
                         ''overall_methodology'' \<mapsto>
                           PFloat (mean [robustness_score, validation_score])])))"

text \<open>\<^verbatim>\<open>self.use_model([text])[0]\<close>: the first row, IndexError when there is none.\<close>

definition analyze_impact_potential :: "models \<Rightarrow> analysis_input \<Rightarrow> error + subresult" where
  "analyze_impact_potential m d =
     (case use_model m [scored_text d] of
        Inl e \<Rightarrow> Inl e
      | Inr [] \<Rightarrow> Inl IndexError
      | Inr (embeddings # _) \<Rightarrow>
          (case predict_academic_impact m embeddings of
             Inl e \<Rightarrow> Inl e
           | Inr academic_impact \<Rightarrow>
               (case predict_practical_impact m d of
                  Inl e \<Rightarrow> Inl e
                | Inr practical_impact \<Rightarrow>
                    (case predict_citation_potential m d of
                       Inl e \<Rightarrow> Inl e
                     | Inr citation_potential \<Rightarrow>
                         Inr [''academic_impact'' \<mapsto> PFloat academic_impact,
                              ''practical_impact'' \<mapsto> PFloat practical_impact,
                              ''citation_potential'' \<mapsto> PFloat citation_potential,
                              ''overall_impact'' \<mapsto>
                                PFloat (mean [academic_impact, practical_impact,
                                              citation_potential])]))))"

subsection \<open>The entry points of the analyzer\<close>

text \<open>
  \<^verbatim>\<open>asyncio.gather\<close> of the four coroutines. None of them awaits, so they run one after
  the other in the order given, and the first exception is the one the caller sees.
\<close>

definition analyze_research :: "models \<Rightarrow> analysis_input \<Rightarrow> error + analysis_result" where
  "analyze_research m d =
     (case analyze_content_quality m d of
        Inl e \<Rightarrow> Inl e
      | Inr cq \<Rightarrow>
          (case analyze_novelty m d of
             Inl e \<Rightarrow> Inl e
           | Inr nv \<Rightarrow>
               (case analyze_methodology m d of
                  Inl e \<Rightarrow> Inl e
                | Inr me \<Rightarrow>
                    (case analyze_impact_potential m d of
                       Inl e \<Rightarrow> Inl e
                     | Inr im \<Rightarrow>
                         (case calculate_overall_score [cq, nv, me, im] of
                            Inl e \<Rightarrow> Inl e
                          | Inr s \<Rightarrow>
                              Inr \<lparr>content_quality = cq, novelty = nv, methodology = me,
                                   impact_potential = im, overall_score = s\<rparr>)))))"



subsection \<open>The research table and the search index\<close>

text \<open>
  A row of the table \<^verbatim>\<open>researches\<close>: the four text columns that the analyzer reads, the
  primary key \<^verbatim>\<open>id\<close> (here \<open>rid\<close>), one more column (\<open>status\<close>) and the three analysis
  artifacts. The column \<^verbatim>\<open>keywords\<close> is the field \<open>keyword_list\<close>. The empty dictionary
  that the constructor stores in \<^verbatim>\<open>analysis_results\<close> is \<open>None\<close>; an embedding vector
  that is NULL or empty is \<open>[]\<close> (both are false for \<^verbatim>\<open>not\<close>). The time stamps and the
  columns that neither method reads are left out.
\<close>

record research = analysis_input +
  rid :: int
  status :: string
  analysis_results :: "analysis_result option"
  embedding_vector :: "real list"
  topic_distribution :: topics

text \<open>
  An item of the dictionary \<^verbatim>\<open>update_data\<close>: a key with a value of the type of its
  column. The keys are those that the callers of \<^verbatim>\<open>update\<close> send, which are the fields of
  the schema \<^verbatim>\<open>ResearchUpdate\<close> and \<^verbatim>\<open>analysis_results\<close>, and the other two artifacts.
  Of the schema's fields, \<^verbatim>\<open>authors\<close> and \<^verbatim>\<open>doi\<close> are columns that the record leaves out,
  and \<^verbatim>\<open>category_ids\<close> and \<^verbatim>\<open>project_ids\<close> are no columns at all. The model ends
  here: a value that is NULL (the schema allows it) or of another type than the column's,
  and the key \<^verbatim>\<open>id\<close> (no caller sends it), are not items.
\<close>

datatype other_column = Authors | Doi | Category_ids | Project_ids



fun other_name :: "other_column \<Rightarrow> string" where
  "other_name Authors = ''authors''"
| "other_name Doi = ''doi''"
| "other_name Category_ids = ''category_ids''"
| "other_name Project_ids = ''project_ids''"






text \<open>
  The search index: a scored query for a vector and a size, answering the identifiers of
  its hits in order (each already converted by \<^verbatim>\<open>int(hit["_id"])\<close>), and the indexing of
  one row, which answers the exception it raises, if any.
\<close>

record search_index =
  es_search :: "real list \<Rightarrow> int \<Rightarrow> error + int list"
  es_index :: "research \<Rightarrow> error option"

text \<open>\<^verbatim>\<open>self.db.query(Research).filter(Research.id == research_id).first()\<close>.\<close>

definition get :: "research list \<Rightarrow> int \<Rightarrow> research option" where
  "get db research_id = find (\<lambda>r. rid r = research_id) db"






text \<open>The slice \<^verbatim>\<open>xs[:limit]\<close>: a negative limit counts from the end.\<close>

definition slice_to :: "int \<Rightarrow> 'a list \<Rightarrow> 'a list" where
  "slice_to limit xs =
     (if 0 \<le> limit then take (nat limit) xs
      else take (nat (int (length xs) + limit)) xs)"

text \<open>
  \<^verbatim>\<open>ResearchService.find_similar\<close>. The last query answers the rows whose identifier is
  one of \<open>similar_ids\<close>, here in the order of the table.
\<close>

definition find_similar ::
  "search_index \<Rightarrow> research list \<Rightarrow> int \<Rightarrow> int \<Rightarrow> error + research list" where
  "find_similar es db research_id limit =
     (case get db research_id of
        None \<Rightarrow> Inr []
      | Some research \<Rightarrow>
          if embedding_vector research = [] then Inr []
          else (case es_search es (embedding_vector research) (limit + 1) of
                  Inl e \<Rightarrow> Inl e
                | Inr hits \<Rightarrow>
                    (let similar_ids = slice_to limit (filter (\<lambda>h. h \<noteq> research_id) hits)
                     in Inr (filter (\<lambda>r. rid r \<in> set similar_ids) db))))"

subsection \<open>Fixed models and inputs for the examples\<close>

text \<open>
  Models that answer the same for every text: the pooled encoder output \<open>emb\<close>, the vector
  \<open>[x]\<close> from both sentence encoders, and \<open>x\<close> from each of the eight helper methods.
\<close>

definition fixed_models :: "real list list \<Rightarrow> real \<Rightarrow> models" where
  "fixed_models emb x =
     \<lparr>bert_embeddings = (\<lambda>_. Inr emb),
      sentence_encode = (\<lambda>_. Inr [x]),
      use_model = (\<lambda>sentences. Inr (map (\<lambda>_. [x]) sentences)),
      calculate_uniqueness = (\<lambda>_. Inr x),
      assess_innovation = (\<lambda>_. Inr x),
      identify_methodology_types = (\<lambda>_. Inr [''survey'']),
      assess_methodology_robustness = (\<lambda>_. Inr x),
      assess_validation_methods = (\<lambda>_. Inr x),
      predict_academic_impact = (\<lambda>_. Inr x),
      predict_practical_impact = (\<lambda>_. Inr x),
      predict_citation_potential = (\<lambda>_. Inr x),
      lda_topics = (\<lambda>_. Inr [(''topic_0'', [''text''], 1)])\<rparr>"

text \<open>The input of the end-to-end scenario.\<close>

definition scenario :: analysis_input where
  "scenario = \<lparr>title = ''X'', abstract = ''Y'', content = ''short text.'', keyword_list = []\<rparr>"

text \<open>A search index that finds the given hits, cut to the size asked for.\<close>

definition fixed_index :: "int list \<Rightarrow> search_index" where
  "fixed_index hits =
     \<lparr>es_search = (\<lambda>_ size. if size < 0 then Inl (SearchError ''size'')
                            else Inr (take (nat size) hits)),
      es_index = (\<lambda>_. None)\<rparr>"

definition paper :: "int \<Rightarrow> real list \<Rightarrow> research" where
  "paper i v =
     \<lparr>title = ''X'', abstract = ''Y'', content = ''short text.'', keyword_list = [],
      rid = i, status = ''draft'', analysis_results = None, embedding_vector = v,
      topic_distribution = []\<rparr>"

text \<open>A text that holds every word of the vocabulary, some in capitals, one twice.\<close>

definition all_terms :: string where
  "all_terms =
     ''Algorithm methodology framework analysis model system data research study implementation results performance EVALUATION data''"

text \<open>An input whose four fields are empty.\<close>

definition empty_input :: analysis_input where
  "empty_input = \<lparr>title = [], abstract = [], content = [], keyword_list = []\<rparr>"

text \<open>
  The result of the analysis of \<open>scenario\<close> under \<open>fixed_models [[0, 1, 2]] (1 / 2)\<close>, and
  its four sub-results in the order of the gather.
\<close>

definition example_analysis :: analysis_result where
  "example_analysis =
     \<lparr>content_quality =
        [''clarity'' \<mapsto> PFloat 1, ''coherence'' \<mapsto> PFloat (8 / 10),
         ''technical_depth'' \<mapsto> PFloat 0, ''overall_quality'' \<mapsto> PFloat (6 / 10)],
      novelty =
        [''uniqueness'' \<mapsto> PFloat (1 / 2), ''innovation'' \<mapsto> PFloat (1 / 2),
         ''overall_novelty'' \<mapsto> PFloat (1 / 2)],
      methodology =
        [''methodology_types'' \<mapsto> PStrs [''survey''], ''robustness'' \<mapsto> PFloat (1 / 2),
         ''validation'' \<mapsto> PFloat (1 / 2), ''overall_methodology'' \<mapsto> PFloat (1 / 2)],
      impact_potential =
        [''academic_impact'' \<mapsto> PFloat (1 / 2), ''practical_impact'' \<mapsto> PFloat (1 / 2),
         ''citation_potential'' \<mapsto> PFloat (1 / 2), ''overall_impact'' \<mapsto> PFloat (1 / 2)],
      overall_score = 35 / 100\<rparr>"

definition example_results :: "subresult list" where
  "example_results =
     [content_quality example_analysis, novelty example_analysis,
      methodology example_analysis, impact_potential example_analysis]"

text \<open>
  The models of a run in which the method \<^verbatim>\<open>calculate_uniqueness\<close> does not exist, as in
  the repository: the attribute lookup raises.
\<close>

definition missing_helper_models :: models where
  "missing_helper_models =
     (fixed_models [[0, 1, 2]] (1 / 2))\<lparr>calculate_uniqueness := (\<lambda>_. Inl AttributeError)\<rparr>"


text \<open>A table of four papers; the third has no embedding vector.\<close>

definition library :: "research list" where
  "library = [paper 1 [1], paper 2 [1], paper 3 [], paper 4 [1]]"

text \<open>A score is in the unit interval.\<close>

definition in_unit :: "real \<Rightarrow> bool" where
  "in_unit x = (0 \<le> x \<and> x \<le> 1)"

text \<open>An input whose scored text has two sentences.\<close>

definition two_sentences :: analysis_input where
  "two_sentences = \<lparr>title = ''A.'', abstract = ''B'', content = ''short text.'', keyword_list = []\<rparr>"

text \<open>The entry of a row at a position, 0 beyond its end.\<close>

definition coord :: "real list \<Rightarrow> nat \<Rightarrow> real" where
  "coord a k = (if k < length a then a ! k else 0)"

section \<open>Properties of the analyzer\<close>

subsection \<open>Technical depth\<close>

lemma split_on_nonempty: "split_on c s \<noteq> []"
  by (induction s) (auto split: list.splits)

lemma card_technical_terms: "card get_technical_terms = 13"
  by (simp add: get_technical_terms_def)

lemma count_technical_terms_le: "count_technical_terms s \<le> 13"
proof -
  have "card (set (split_ws (lower s)) \<inter> get_technical_terms) \<le> card get_technical_terms"
    by (rule card_mono) (simp_all add: get_technical_terms_def)
  then show ?thesis
    by (simp add: count_technical_terms_def card_technical_terms)
qed

lemma technical_depth_eq: "assess_technical_depth s = real (count_technical_terms s) / 100"
  using count_technical_terms_le [of s] by (simp add: assess_technical_depth_def min_def)

lemma technical_depth_bounds: "0 \<le> assess_technical_depth s \<and> assess_technical_depth s \<le> 13 / 100"
  using count_technical_terms_le [of s] by (simp add: technical_depth_eq)

lemma quality_technical_depth:
  "analyze_content_quality m d = Inr q \<Longrightarrow>
     q ''technical_depth'' = Some (PFloat (assess_technical_depth (scored_text d)))"
  by (auto simp: analyze_content_quality_def Let_def split: sum.splits)

lemma all_terms_words: "set (split_ws (lower all_terms)) = get_technical_terms"
  unfolding all_terms_def get_technical_terms_def by code_simp

lemma all_terms_count: "count_technical_terms all_terms = 13"
  by (simp add: count_technical_terms_def all_terms_words card_technical_terms)

text \<open>
  Claim C9. For every input text the technical depth is at most 13/100: the vocabulary
  has exactly 13 words, the count of technical terms is the size of an intersection with
  it, hence at most 13, and the depth is that count divided by 100 (the cap at 1 is never
  reached). The same holds for the entry \<^verbatim>\<open>technical_depth\<close> of every result of the
  content-quality sub-routine.
\<close>

theorem technical_depth_at_most_13_percent:
  "card get_technical_terms = 13 \<and>
   count_technical_terms s \<le> 13 \<and>
   assess_technical_depth s = real (count_technical_terms s) / 100 \<and>
   assess_technical_depth s \<le> 13 / 100 \<and>
   (case analyze_content_quality m d of
      Inl e \<Rightarrow> True
    | Inr q \<Rightarrow> \<exists>t. q ''technical_depth'' = Some (PFloat t) \<and> t \<le> 13 / 100)"
proof -
  have "\<exists>t. q ''technical_depth'' = Some (PFloat t) \<and> t \<le> 13 / 100"
    if "analyze_content_quality m d = Inr q" for q
    using quality_technical_depth [OF that] technical_depth_bounds by blast
  then show ?thesis
    using technical_depth_bounds [of s] count_technical_terms_le [of s]
      card_technical_terms technical_depth_eq [of s]
    by (simp split: sum.splits)
qed

text \<open>The bound is reached by a text that holds all 13 words.\<close>

theorem technical_depth_at_most_13_percent_witness:
  "count_technical_terms all_terms = 13 \<and> assess_technical_depth all_terms = 13 / 100"
  using technical_depth_at_most_13_percent [of all_terms] all_terms_count
  by simp

subsection \<open>Coherence\<close>

lemma coherence_short:
  "length (split_on CHR ''.'' s) < 2 \<Longrightarrow> calculate_coherence_score m s = Inr (8 / 10)"
  by (simp add: calculate_coherence_score_def)

lemma scenario_text: "scored_text scenario = ''X Y''"
  by (simp add: scored_text_def scenario_def)

lemma empty_input_text: "scored_text empty_input = '' ''"
  by (simp add: scored_text_def empty_input_def)

text \<open>
  Claim C7. When the scored text (title, a space, abstract) has fewer than two parts
  between full stops, the coherence score is exactly 0.8, and so is the entry
  \<^verbatim>\<open>coherence\<close> of the content-quality result; that sub-routine then raises only when the
  encoder does. The coherence of the empty text is 0.8 too: nothing is raised.
\<close>

theorem coherence_defaults_below_two_sentences:
  assumes "length (split_on CHR ''.'' (scored_text d)) < 2"
  shows "calculate_coherence_score m (scored_text d) = Inr (8 / 10) \<and>
         calculate_coherence_score m [] = Inr (8 / 10) \<and>
         (case analyze_content_quality m d of
            Inl e \<Rightarrow> bert_embeddings m (scored_text d) = Inl e
          | Inr q \<Rightarrow> q ''coherence'' = Some (PFloat (8 / 10)))"
proof -
  have a: "calculate_coherence_score m (scored_text d) = Inr (8 / 10)"
    using assms by (rule coherence_short)
  have b: "calculate_coherence_score m [] = Inr (8 / 10)"
    by (simp add: coherence_short)
  have c: "(case analyze_content_quality m d of
            Inl e \<Rightarrow> bert_embeddings m (scored_text d) = Inl e
          | Inr q \<Rightarrow> q ''coherence'' = Some (PFloat (8 / 10)))"
    by (cases "bert_embeddings m (scored_text d)")
       (simp_all add: analyze_content_quality_def Let_def a)
  from a b c show ?thesis by blast
qed

theorem coherence_defaults_below_two_sentences_witness:
  "length (split_on CHR ''.'' (scored_text scenario)) < 2 \<and>
   calculate_coherence_score (fixed_models [[0, 1, 2]] (1 / 2)) (scored_text scenario)
     = Inr (8 / 10) \<and>
   (\<exists>q. analyze_content_quality (fixed_models [[0, 1, 2]] (1 / 2)) scenario = Inr q \<and>
        q ''coherence'' = Some (PFloat (8 / 10))) \<and>
   length (split_on CHR ''.'' (scored_text empty_input)) < 2 \<and>
   (\<exists>q. analyze_content_quality (fixed_models [[0, 1, 2]] (1 / 2)) empty_input = Inr q \<and>
        q ''coherence'' = Some (PFloat (8 / 10)))"
proof -
  have h: "length (split_on CHR ''.'' (scored_text scenario)) < 2"
    by (simp add: scenario_text)
  have h': "length (split_on CHR ''.'' (scored_text empty_input)) < 2"
    by (simp add: empty_input_text)
  have r: "\<exists>q. analyze_content_quality (fixed_models [[0, 1, 2]] (1 / 2)) scenario = Inr q"
    by (simp add: analyze_content_quality_def Let_def fixed_models_def scenario_text
        coherence_short)
  have r': "\<exists>q. analyze_content_quality (fixed_models [[0, 1, 2]] (1 / 2)) empty_input = Inr q"
    by (simp add: analyze_content_quality_def Let_def fixed_models_def empty_input_text
        coherence_short)
  show ?thesis
    using h h' r r'
      coherence_defaults_below_two_sentences [OF h, of "fixed_models [[0, 1, 2]] (1 / 2)"]
      coherence_defaults_below_two_sentences [OF h', of "fixed_models [[0, 1, 2]] (1 / 2)"]
    by (auto split: sum.splits)
qed

subsection \<open>The aggregation loop\<close>

lemma score_loop_append:
  "score_loop (xs @ ys) acc =
     (case score_loop xs acc of Inl e \<Rightarrow> Inl e | Inr acc' \<Rightarrow> score_loop ys acc')"
  by (induction xs acc rule: score_loop.induct) (auto split: option.splits sum.splits)

lemma zip_drop_nth:
  assumes "i < length xs" "i < length ys"
  shows "zip xs ys = zip (take i xs) (take i ys) @ (xs ! i, ys ! i) # zip (drop (Suc i) xs) (drop (Suc i) ys)"
proof -
  have "zip xs ys = zip (take i xs @ xs ! i # drop (Suc i) xs) (take i ys @ ys ! i # drop (Suc i) ys)"
    using assms by (simp add: id_take_nth_drop [symmetric])
  also have "\<dots> = zip (take i xs) (take i ys) @ (xs ! i, ys ! i) # zip (drop (Suc i) xs) (drop (Suc i) ys)"
    using assms by (simp add: zip_append)
  finally show ?thesis .
qed

lemma zip_without_nth:
  assumes "i < length xs" "i < length ys"
  shows "zip (take i xs @ drop (Suc i) xs) (take i ys @ drop (Suc i) ys)
         = zip (take i xs) (take i ys) @ zip (drop (Suc i) xs) (drop (Suc i) ys)"
  using assms by (simp add: zip_append)

lemma aggregate_drop_missing:
  assumes "i < length results" "i < length ws"
    and "(results ! i) (overall_key (fst (ws ! i))) = None"
  shows "aggregate ws results =
         aggregate (take i ws @ drop (Suc i) ws) (take i results @ drop (Suc i) results)"
proof -
  obtain metric weight where w: "ws ! i = (metric, weight)" by (cases "ws ! i")
  have "score_loop ((results ! i, ws ! i) # rest) acc = score_loop rest acc" for rest acc
    using assms(3) by (simp add: w)
  then show ?thesis
    unfolding aggregate_def
    by (simp add: zip_drop_nth [OF assms(1,2)] zip_without_nth [OF assms(1,2)]
        score_loop_append split: sum.splits)
qed

lemma score_loop_error: "score_loop zs acc = Inl e \<Longrightarrow> e = TypeError"
proof (induction zs acc rule: score_loop.induct)
  case (1 scores)
  then show ?case by simp
next
  case (2 result metric weight rest scores)
  show ?case
  proof (cases "result (overall_key metric)")
    case None
    with 2 show ?thesis by simp
  next
    case (Some v)
    show ?thesis
    proof (cases v)
      case (PFloat x)
      with 2 Some show ?thesis by simp
    next
      case (PStrs ls)
      with 2 Some show ?thesis by simp
    qed
  qed
qed

lemma score_loop_floats:
  "\<forall>z\<in>set zs. \<forall>v. fst z (overall_key (fst (snd z))) = Some v \<longrightarrow> (\<exists>x. v = PFloat x)
   \<Longrightarrow> \<exists>scores. score_loop zs acc = Inr scores"
proof (induction zs acc rule: score_loop.induct)
  case (1 scores)
  then show ?case by simp
next
  case (2 result metric weight rest scores)
  then have rest: "\<forall>z\<in>set rest. \<forall>v. fst z (overall_key (fst (snd z))) = Some v \<longrightarrow> (\<exists>x. v = PFloat x)"
    by simp
  show ?case
  proof (cases "result (overall_key metric)")
    case None
    then show ?thesis using "2.IH"(1) rest by simp
  next
    case (Some v)
    then obtain x where x: "v = PFloat x" using "2.prems" by auto
    show ?thesis using "2.IH"(2) [OF Some, of "x * weight"] rest Some x by simp
  qed
qed

lemma length_weights: "length weights = 4"
  by (simp add: weights_def)

lemma overall_keys:
  "overall_key ''content_quality'' = ''overall_content''"
  "overall_key ''novelty'' = ''overall_novelty''"
  "overall_key ''methodology'' = ''overall_methodology''"
  "overall_key ''impact_potential'' = ''overall_impact''"
  by (simp_all add: overall_key_def)

text \<open>
  Claim C3. In \<^verbatim>\<open>calculate_overall_score\<close>, a sub-result (one of the first four of the
  list) whose aggregate key is absent adds nothing: the score is the one the loop computes
  when that sub-result and its weight are taken out of the two lists, so no default stands
  in for the term. No KeyError is raised, and the call returns whenever every aggregate
  value that is present is a float.
\<close>

theorem missing_aggregate_key_is_dropped:
  assumes "i < length results" and "i < 4"
    and "(results ! i) (overall_key (fst (weights ! i))) = None"
  shows "calculate_overall_score results =
           aggregate (take i weights @ drop (Suc i) weights)
                     (take i results @ drop (Suc i) results) \<and>
         calculate_overall_score results \<noteq> Inl KeyError \<and>
         ((\<forall>j v. j < length results \<and> j < 4 \<and>
                 (results ! j) (overall_key (fst (weights ! j))) = Some v \<longrightarrow> (\<exists>x. v = PFloat x))
          \<longrightarrow> (\<exists>s. calculate_overall_score results = Inr s))"
proof -
  have a: "calculate_overall_score results =
           aggregate (take i weights @ drop (Suc i) weights)
                     (take i results @ drop (Suc i) results)"
    unfolding calculate_overall_score_def
    using assms by (intro aggregate_drop_missing) (simp_all add: length_weights)
  have b: "calculate_overall_score results \<noteq> Inl KeyError"
  proof
    assume "calculate_overall_score results = Inl KeyError"
    then have "score_loop (zip results weights) [] = Inl KeyError"
      by (simp add: calculate_overall_score_def aggregate_def split: sum.splits)
    then show False using score_loop_error by blast
  qed
  have c: "\<exists>s. calculate_overall_score results = Inr s"
    if h: "\<forall>j v. j < length results \<and> j < 4 \<and>
                 (results ! j) (overall_key (fst (weights ! j))) = Some v \<longrightarrow> (\<exists>x. v = PFloat x)"
  proof -
    have "\<exists>x. v = PFloat x"
      if "z \<in> set (zip results weights)"
        and "fst z (overall_key (fst (snd z))) = Some v" for z v
    proof -
      from that(1) obtain j where j: "j < length results" "j < length weights"
        "z = (results ! j, weights ! j)"
        by (auto simp: set_zip)
      from j that(2) have "(results ! j) (overall_key (fst (weights ! j))) = Some v"
        by simp
      with h j show ?thesis unfolding length_weights by blast
    qed
    then have "\<forall>z\<in>set (zip results weights).
                 \<forall>v. fst z (overall_key (fst (snd z))) = Some v \<longrightarrow> (\<exists>x. v = PFloat x)"
      by blast
    then obtain scores where "score_loop (zip results weights) [] = Inr scores"
      using score_loop_floats [of "zip results weights" "[]"] by blast
    then show ?thesis by (simp add: calculate_overall_score_def aggregate_def)
  qed
  from a b c show ?thesis by blast
qed

text \<open>
  The first of the four sub-results of \<open>example_analysis\<close> has no key
  \<^verbatim>\<open>overall_content\<close>: the score is the one of the other three.
\<close>

theorem missing_aggregate_key_is_dropped_witness:
  "0 < length example_results \<and>
   (example_results ! 0) (overall_key (fst (weights ! 0))) = None \<and>
   calculate_overall_score example_results = aggregate (drop 1 weights) (drop 1 example_results) \<and>
   calculate_overall_score example_results = Inr (35 / 100)"
proof -
  have k: "(example_results ! 0) (overall_key (fst (weights ! 0))) = None"
    by (simp add: example_results_def example_analysis_def weights_def overall_keys)
  have v: "calculate_overall_score example_results = Inr (35 / 100)"
    by (simp add: example_results_def example_analysis_def weights_def overall_keys
        calculate_overall_score_def aggregate_def)
  show ?thesis
    using k v missing_aggregate_key_is_dropped [of 0 example_results]
    by (simp add: example_results_def)
qed

subsection \<open>The shape of the four sub-results and the overall score\<close>

lemma quality_shape:
  "analyze_content_quality m d = Inr q \<Longrightarrow>
     \<exists>c h. q = [''clarity'' \<mapsto> PFloat c, ''coherence'' \<mapsto> PFloat h,
              ''technical_depth'' \<mapsto> PFloat (assess_technical_depth (scored_text d)),
              ''overall_quality'' \<mapsto> PFloat (mean [c, h, assess_technical_depth (scored_text d)])]"
  by (auto simp: analyze_content_quality_def Let_def split: sum.splits)

lemma novelty_shape:
  "analyze_novelty m d = Inr n \<Longrightarrow>
     \<exists>u i. n = [''uniqueness'' \<mapsto> PFloat u, ''innovation'' \<mapsto> PFloat i,
              ''overall_novelty'' \<mapsto> PFloat (mean [u, i])]"
  by (auto simp: analyze_novelty_def Let_def split: sum.splits)

lemma methodology_shape:
  "analyze_methodology m d = Inr me \<Longrightarrow>
     \<exists>ts r v. me = [''methodology_types'' \<mapsto> PStrs ts, ''robustness'' \<mapsto> PFloat r,
                 ''validation'' \<mapsto> PFloat v, ''overall_methodology'' \<mapsto> PFloat (mean [r, v])]"
  by (auto simp: analyze_methodology_def split: sum.splits)

lemma impact_shape:
  "analyze_impact_potential m d = Inr im \<Longrightarrow>
     \<exists>a p c. im = [''academic_impact'' \<mapsto> PFloat a, ''practical_impact'' \<mapsto> PFloat p,
                ''citation_potential'' \<mapsto> PFloat c, ''overall_impact'' \<mapsto> PFloat (mean [a, p, c])]"
  by (auto simp: analyze_impact_potential_def split: sum.splits list.splits)

lemma overall_score_of_four:
  assumes "cq ''overall_content'' = None"
    and "nv ''overall_novelty'' = Some (PFloat n)"
    and "me ''overall_methodology'' = Some (PFloat t)"
    and "im ''overall_impact'' = Some (PFloat i)"
  shows "calculate_overall_score [cq, nv, me, im] = Inr (n * (25 / 100) + t * (25 / 100) + i * (2 / 10))"
  using assms
  by (simp add: calculate_overall_score_def aggregate_def weights_def overall_keys)

lemma analyze_research_score:
  assumes "analyze_research m d = Inr r"
  shows "\<exists>q n t i.
           analyze_content_quality m d = Inr (content_quality r) \<and>
           analyze_novelty m d = Inr (novelty r) \<and>
           analyze_methodology m d = Inr (methodology r) \<and>
           analyze_impact_potential m d = Inr (impact_potential r) \<and>
           content_quality r ''overall_quality'' = Some (PFloat q) \<and>
           novelty r ''overall_novelty'' = Some (PFloat n) \<and>
           methodology r ''overall_methodology'' = Some (PFloat t) \<and>
           impact_potential r ''overall_impact'' = Some (PFloat i) \<and>
           overall_score r = n * (25 / 100) + t * (25 / 100) + i * (2 / 10)"
proof -
  from assms obtain cq nv me im s where
    cq: "analyze_content_quality m d = Inr cq" and
    nv: "analyze_novelty m d = Inr nv" and
    me: "analyze_methodology m d = Inr me" and
    im: "analyze_impact_potential m d = Inr im" and
    s: "calculate_overall_score [cq, nv, me, im] = Inr s" and
    r: "r = \<lparr>content_quality = cq, novelty = nv, methodology = me,
              impact_potential = im, overall_score = s\<rparr>"
    by (auto simp: analyze_research_def split: sum.splits)
  from quality_shape [OF cq] obtain q where q: "cq ''overall_quality'' = Some (PFloat q)"
    and q0: "cq ''overall_content'' = None" by auto
  from novelty_shape [OF nv] obtain n where n: "nv ''overall_novelty'' = Some (PFloat n)" by auto
  from methodology_shape [OF me] obtain t where t: "me ''overall_methodology'' = Some (PFloat t)" by auto
  from impact_shape [OF im] obtain i where i: "im ''overall_impact'' = Some (PFloat i)" by auto
  from overall_score_of_four [where cq = cq and nv = nv and me = me and im = im] q0 n t i s
  have "s = n * (25 / 100) + t * (25 / 100) + i * (2 / 10)" by simp
  with cq nv me im q n t i r show ?thesis by simp
qed

lemma analyze_research_succeeds:
  assumes cq: "analyze_content_quality m d = Inr cq"
    and nv: "analyze_novelty m d = Inr nv"
    and me: "analyze_methodology m d = Inr me"
    and im: "analyze_impact_potential m d = Inr im"
  shows "\<exists>s. analyze_research m d =
           Inr \<lparr>content_quality = cq, novelty = nv, methodology = me,
                impact_potential = im, overall_score = s\<rparr>"
proof -
  from quality_shape [OF cq] have q0: "cq ''overall_content'' = None" by auto
  from novelty_shape [OF nv] obtain n where n: "nv ''overall_novelty'' = Some (PFloat n)" by auto
  from methodology_shape [OF me] obtain t where t: "me ''overall_methodology'' = Some (PFloat t)" by auto
  from impact_shape [OF im] obtain i where i: "im ''overall_impact'' = Some (PFloat i)" by auto
  from overall_score_of_four [where cq = cq and nv = nv and me = me and im = im] q0 n t i
  show ?thesis
    by (simp add: analyze_research_def cq nv me im)
qed


subsection \<open>The example run\<close>

lemma depth_XY: "assess_technical_depth ''X Y'' = 0"
proof -
  have "count_technical_terms ''X Y'' = 0"
    unfolding count_technical_terms_def get_technical_terms_def by code_simp
  then show ?thesis by (simp add: assess_technical_depth_def)
qed

lemma fixed_quality:
  "scored_text d = ''X Y'' \<Longrightarrow>
   analyze_content_quality (fixed_models emb x) d =
     Inr [''clarity'' \<mapsto> PFloat (calculate_clarity_score emb),
          ''coherence'' \<mapsto> PFloat (8 / 10),
          ''technical_depth'' \<mapsto> PFloat 0,
          ''overall_quality'' \<mapsto> PFloat (mean [calculate_clarity_score emb, 8 / 10, 0])]"
  by (simp add: analyze_content_quality_def Let_def fixed_models_def coherence_short depth_XY)

lemma fixed_novelty:
  "analyze_novelty (fixed_models emb x) d =
     Inr [''uniqueness'' \<mapsto> PFloat x, ''innovation'' \<mapsto> PFloat x,
          ''overall_novelty'' \<mapsto> PFloat (mean [x, x])]"
  by (simp add: analyze_novelty_def Let_def fixed_models_def)

lemma fixed_methodology:
  "analyze_methodology (fixed_models emb x) d =
     Inr [''methodology_types'' \<mapsto> PStrs [''survey''], ''robustness'' \<mapsto> PFloat x,
          ''validation'' \<mapsto> PFloat x, ''overall_methodology'' \<mapsto> PFloat (mean [x, x])]"
  by (simp add: analyze_methodology_def fixed_models_def)

lemma fixed_impact:
  "analyze_impact_potential (fixed_models emb x) d =
     Inr [''academic_impact'' \<mapsto> PFloat x, ''practical_impact'' \<mapsto> PFloat x,
          ''citation_potential'' \<mapsto> PFloat x, ''overall_impact'' \<mapsto> PFloat (mean [x, x, x])]"
  by (simp add: analyze_impact_potential_def fixed_models_def)

lemma clarity_012: "calculate_clarity_score [[0, 1, 2]] = 1"
  by (simp add: calculate_clarity_score_def std_def mean_def)

lemma clarity_02: "1 < calculate_clarity_score [[0, 2]]"
  by (simp add: calculate_clarity_score_def std_def mean_def)

lemma fixed_research:
  "scored_text d = ''X Y'' \<Longrightarrow>
   analyze_research (fixed_models [[0, 1, 2]] (1 / 2)) d = Inr example_analysis"
  by (simp add: analyze_research_def fixed_quality fixed_novelty fixed_methodology fixed_impact
      clarity_012 mean_def calculate_overall_score_def aggregate_def weights_def overall_keys
      example_analysis_def)

lemmas scenario_research = fixed_research [OF scenario_text]

text \<open>
  Claim C1 says that the overall score is 0.30 times the quality aggregate plus 0.25 times
  the novelty aggregate plus 0.25 times the methodology aggregate plus 0.20 times the impact
  aggregate. The code looks the quality aggregate up under \<^verbatim>\<open>overall_content\<close>, a key that
  the content-quality result never has, so that term is left out. In the example run the
  aggregates are 0.6, 0.5, 0.5 and 0.5: the code returns 0.35 where the weighted sum of the
  claim is 0.53.
\<close>

theorem overall_score_omits_content_quality:
  "\<exists>r. analyze_research (fixed_models [[0, 1, 2]] (1 / 2)) scenario = Inr r \<and>
       content_quality r ''overall_quality'' = Some (PFloat (6 / 10)) \<and>
       novelty r ''overall_novelty'' = Some (PFloat (1 / 2)) \<and>
       methodology r ''overall_methodology'' = Some (PFloat (1 / 2)) \<and>
       impact_potential r ''overall_impact'' = Some (PFloat (1 / 2)) \<and>
       overall_score r = 35 / 100 \<and>
       3 / 10 * (6 / 10) + 25 / 100 * (1 / 2) + 25 / 100 * (1 / 2) + 2 / 10 * (1 / 2)
         = (53 / 100 :: real)"
  by (simp add: scenario_research) (simp add: example_analysis_def)

text \<open>
  Claim C4. Whenever \<^verbatim>\<open>analyze_research\<close> returns and the four aggregates of its
  sub-results lie in [0,1], the overall score lies in [0,1].
\<close>

theorem overall_score_in_unit_interval:
  assumes "analyze_research m d = Inr r"
    and "content_quality r ''overall_quality'' = Some (PFloat q)" and "0 \<le> q" and "q \<le> 1"
    and "novelty r ''overall_novelty'' = Some (PFloat n)" and "0 \<le> n" and "n \<le> 1"
    and "methodology r ''overall_methodology'' = Some (PFloat t)" and "0 \<le> t" and "t \<le> 1"
    and "impact_potential r ''overall_impact'' = Some (PFloat i)" and "0 \<le> i" and "i \<le> 1"
  shows "0 \<le> overall_score r \<and> overall_score r \<le> 1"
proof -
  from analyze_research_score [OF assms(1)] assms(5,8,11)
  have "overall_score r = n * (25 / 100) + t * (25 / 100) + i * (2 / 10)"
    by auto
  with assms show ?thesis by simp
qed

theorem overall_score_in_unit_interval_witness:
  "analyze_research (fixed_models [[0, 1, 2]] (1 / 2)) scenario = Inr example_analysis \<and>
   content_quality example_analysis ''overall_quality'' = Some (PFloat (6 / 10)) \<and>
   novelty example_analysis ''overall_novelty'' = Some (PFloat (1 / 2)) \<and>
   methodology example_analysis ''overall_methodology'' = Some (PFloat (1 / 2)) \<and>
   impact_potential example_analysis ''overall_impact'' = Some (PFloat (1 / 2)) \<and>
   0 \<le> overall_score example_analysis \<and> overall_score example_analysis \<le> 1"
  using overall_score_in_unit_interval [OF scenario_research,
      of "6 / 10" "1 / 2" "1 / 2" "1 / 2"]
  by (simp add: scenario_research) (simp add: example_analysis_def)

text \<open>
  Claim C5. Either the four sub-routines all return and \<^verbatim>\<open>analyze_research\<close> returns a
  result that holds their four sub-results together with the overall score computed from
  them, or one of the four raises and the whole call raises: no partial result.
\<close>

theorem analyze_research_all_or_nothing:
  "(\<exists>cq nv me im s.
      analyze_content_quality m d = Inr cq \<and> analyze_novelty m d = Inr nv \<and>
      analyze_methodology m d = Inr me \<and> analyze_impact_potential m d = Inr im \<and>
      calculate_overall_score [cq, nv, me, im] = Inr s \<and>
      analyze_research m d =
        Inr \<lparr>content_quality = cq, novelty = nv, methodology = me,
             impact_potential = im, overall_score = s\<rparr>)
   \<or> ((isl (analyze_content_quality m d) \<or> isl (analyze_novelty m d) \<or>
        isl (analyze_methodology m d) \<or> isl (analyze_impact_potential m d)) \<and>
       isl (analyze_research m d))"
proof (cases "isl (analyze_content_quality m d) \<or> isl (analyze_novelty m d) \<or>
        isl (analyze_methodology m d) \<or> isl (analyze_impact_potential m d)")
  case True
  then have "isl (analyze_research m d)"
    by (auto simp: analyze_research_def isl_def split: sum.splits)
  with True show ?thesis by blast
next
  case False
  then obtain cq nv me im where
    ok: "analyze_content_quality m d = Inr cq" "analyze_novelty m d = Inr nv"
      "analyze_methodology m d = Inr me" "analyze_impact_potential m d = Inr im"
    by (auto simp: isl_def) (metis sum.exhaust)
  from analyze_research_succeeds [OF ok] obtain s where
    s: "analyze_research m d =
          Inr \<lparr>content_quality = cq, novelty = nv, methodology = me,
               impact_potential = im, overall_score = s\<rparr>" by blast
  then have "calculate_overall_score [cq, nv, me, im] = Inr s"
    by (auto simp: analyze_research_def ok split: sum.splits)
  with ok s show ?thesis by blast
qed

text \<open>
  Both cases occur: the example run returns the whole result, and a run in which the
  method \<^verbatim>\<open>calculate_uniqueness\<close> is missing raises as a whole.
\<close>

theorem analyze_research_all_or_nothing_witness:
  "analyze_research (fixed_models [[0, 1, 2]] (1 / 2)) scenario = Inr example_analysis \<and>
   analyze_content_quality missing_helper_models scenario
     = Inr (content_quality example_analysis) \<and>
   analyze_novelty missing_helper_models scenario = Inl AttributeError \<and>
   analyze_research missing_helper_models scenario = Inl AttributeError"
proof -
  have q: "analyze_content_quality missing_helper_models scenario
             = Inr (content_quality example_analysis)"
    by (simp add: analyze_content_quality_def Let_def missing_helper_models_def
        fixed_models_def scenario_text coherence_short depth_XY clarity_012 mean_def
        example_analysis_def)
  have n: "analyze_novelty missing_helper_models scenario = Inl AttributeError"
    by (simp add: analyze_novelty_def Let_def missing_helper_models_def fixed_models_def)
  have "analyze_research missing_helper_models scenario = Inl AttributeError"
    using analyze_research_all_or_nothing [of missing_helper_models scenario] q n
    by (auto simp: analyze_research_def)
  with q n scenario_research show ?thesis by simp
qed

subsection \<open>Bounds on the sub-metrics\<close>

lemma mean2_unit: "in_unit a \<Longrightarrow> in_unit b \<Longrightarrow> in_unit (mean [a, b])"
  by (simp add: in_unit_def mean_def)

lemma mean3_unit: "in_unit a \<Longrightarrow> in_unit b \<Longrightarrow> in_unit c \<Longrightarrow> in_unit (mean [a, b, c])"
  by (simp add: in_unit_def mean_def)

lemma depth_unit: "in_unit (assess_technical_depth s)"
  using technical_depth_bounds [of s] by (simp add: in_unit_def)

lemma mean3_nonneg: "0 \<le> a \<Longrightarrow> 0 \<le> b \<Longrightarrow> 0 \<le> c \<Longrightarrow> 0 \<le> mean [a, b, c]"
  by (simp add: mean_def)

text \<open>
  The sum of all entries of \<^verbatim>\<open>matmul(e, e, transpose_b=True)\<close> is a sum of squares, one
  for each position of the rows: the square of the sum of the entries at that position.
\<close>

lemma coord_Nil: "coord [] k = 0"
  by (simp add: coord_def)

lemma coord_Cons_0: "coord (x # xs) 0 = x"
  by (simp add: coord_def)

lemma coord_Cons_Suc: "coord (x # xs) (Suc k) = coord xs k"
  by (simp add: coord_def)

lemma dot_Nil: "dot [] b = 0" "dot a [] = 0"
  by (simp_all add: dot_def)

lemma dot_Cons: "dot (x # xs) (y # ys) = x * y + dot xs ys"
  by (simp add: dot_def)

lemma dot_coord: "length a \<le> n \<Longrightarrow> dot a b = (\<Sum>k<n. coord a k * coord b k)"
proof (induction a arbitrary: b n)
  case Nil
  then show ?case by (simp add: dot_Nil coord_Nil)
next
  case (Cons x xs)
  then obtain n' where n: "n = Suc n'" and le: "length xs \<le> n'"
    by (cases n) auto
  show ?case
  proof (cases b)
    case Nil
    then show ?thesis by (simp add: dot_Nil coord_Nil)
  next
    case (Cons y ys)
    have "(\<Sum>k<Suc n'. coord (x # xs) k * coord (y # ys) k)
          = x * y + (\<Sum>k<n'. coord xs k * coord ys k)"
      by (subst sum.lessThan_Suc_shift) (simp add: coord_Cons_0 coord_Cons_Suc)
    then show ?thesis
      using Cons.IH [OF le, of ys] by (simp add: Cons n dot_Cons)
  qed
qed

lemma sum_list_sum_swap:
  "sum_list (map (\<lambda>a. \<Sum>k<n. g a k) xs) = (\<Sum>k<n. sum_list (map (\<lambda>a. g a k) xs))"
  by (induction xs) (simp_all add: sum.distrib)

lemma sum_list_concat_rows: "sum_list (concat xss) = sum_list (map sum_list xss)"
  by (induction xss) simp_all

lemma gram_sum_nonneg: "0 \<le> sum_list (concat (matmul_transpose e))"
proof -
  define n where "n = sum_list (map length e)"
  have le: "length a \<le> n" if "a \<in> set e" for a
    unfolding n_def using that by (simp add: member_le_sum_list)
  define s where "s k = sum_list (map (\<lambda>a. coord a k) e)" for k
  have row: "sum_list (map (\<lambda>b. dot a b) e) = (\<Sum>k<n. coord a k * s k)" if "a \<in> set e" for a
  proof -
    have "sum_list (map (\<lambda>b. dot a b) e) = sum_list (map (\<lambda>b. \<Sum>k<n. coord a k * coord b k) e)"
      using dot_coord [OF le [OF that]] by simp
    also have "\<dots> = (\<Sum>k<n. sum_list (map (\<lambda>b. coord a k * coord b k) e))"
      by (rule sum_list_sum_swap)
    also have "\<dots> = (\<Sum>k<n. coord a k * s k)"
      by (simp add: s_def sum_list_const_mult)
    finally show ?thesis .
  qed
  have "sum_list (concat (matmul_transpose e)) = sum_list (map (\<lambda>a. sum_list (map (\<lambda>b. dot a b) e)) e)"
    by (simp add: matmul_transpose_def sum_list_concat_rows comp_def)
  also have "\<dots> = sum_list (map (\<lambda>a. \<Sum>k<n. coord a k * s k) e)"
    using row by (intro arg_cong [where f = sum_list] map_cong) simp_all
  also have "\<dots> = (\<Sum>k<n. sum_list (map (\<lambda>a. coord a k * s k) e))"
    by (rule sum_list_sum_swap)
  also have "\<dots> = (\<Sum>k<n. s k * s k)"
    by (simp add: s_def sum_list_mult_const)
  also have "0 \<le> \<dots>"
    by (intro sum_nonneg) simp
  finally show ?thesis .
qed

lemma mean_nonneg: "(\<And>x. x \<in> set xs \<Longrightarrow> 0 \<le> x) \<Longrightarrow> 0 \<le> mean xs"
  by (simp add: mean_def sum_list_nonneg)

lemma reduce_mean_gram_nonneg: "0 \<le> reduce_mean (matmul_transpose e)"
  using gram_sum_nonneg [of e] by (simp add: reduce_mean_def mean_def)

lemma std_nonneg: "0 \<le> std xs"
proof -
  have "0 \<le> sum_list (map (\<lambda>x. (x - mean xs)\<^sup>2) xs)"
    by (intro sum_list_nonneg) auto
  moreover have "xs = [] \<or> 0 \<le> real (length xs) - 1"
    by (cases xs) auto
  ultimately have "0 \<le> sum_list (map (\<lambda>x. (x - mean xs)\<^sup>2) xs) / (real (length xs) - 1)"
    by (auto intro: divide_nonneg_nonneg)
  then show ?thesis by (simp add: std_def)
qed

lemma clarity_nonneg: "0 \<le> calculate_clarity_score e"
  unfolding calculate_clarity_score_def by (rule mean_nonneg) (auto simp: std_nonneg)

lemma coherence_nonneg: "calculate_coherence_score m s = Inr h \<Longrightarrow> 0 \<le> h"
  using reduce_mean_gram_nonneg
  by (auto simp: calculate_coherence_score_def Let_def split: if_splits sum.splits)

lemma two_sentences_text: "scored_text two_sentences = ''A. B''"
  by (simp add: scored_text_def two_sentences_def)

lemma two_sentences_coherence:
  "calculate_coherence_score (fixed_models emb 2) ''A. B'' = Inr 4"
  by (simp add: calculate_coherence_score_def fixed_models_def reduce_mean_def
      matmul_transpose_def dot_def mean_def)

lemma fixed_bert: "bert_embeddings (fixed_models emb x) s = Inr emb"
  by (simp add: fixed_models_def)

text \<open>
  Claim C2 says that every sub-metric of the four sub-routines lies in [0,1]. The code
  bounds the technical depth only. Clarity is a standard deviation of the encoder's output:
  for the output \<open>[[0, 2]]\<close> it is the square root of 2. Coherence is the mean of the dot
  products of the sentence embeddings: for two sentences embedded as \<open>[2]\<close> it is 4. The
  other seven sub-metrics are what the helper methods return, here 2 or -1, and so are
  their means.
\<close>

theorem sub_metrics_outside_unit_interval:
  "(\<exists>cq c. analyze_content_quality (fixed_models [[0, 2]] (1 / 2)) scenario = Inr cq \<and>
           cq ''clarity'' = Some (PFloat c) \<and> 1 < c \<and> \<not> in_unit c) \<and>
   (\<exists>cq. analyze_content_quality (fixed_models [[0, 1, 2]] 2) two_sentences = Inr cq \<and>
         cq ''coherence'' = Some (PFloat 4) \<and> \<not> in_unit 4) \<and>
   (\<exists>nv. analyze_novelty (fixed_models [[0, 1, 2]] 2) scenario = Inr nv \<and>
         nv ''uniqueness'' = Some (PFloat 2) \<and> nv ''innovation'' = Some (PFloat 2) \<and>
         nv ''overall_novelty'' = Some (PFloat 2) \<and> \<not> in_unit 2) \<and>
   (\<exists>me. analyze_methodology (fixed_models [[0, 1, 2]] (- 1)) scenario = Inr me \<and>
         me ''robustness'' = Some (PFloat (- 1)) \<and> me ''validation'' = Some (PFloat (- 1)) \<and>
         me ''overall_methodology'' = Some (PFloat (- 1)) \<and> \<not> in_unit (- 1)) \<and>
   (\<exists>im. analyze_impact_potential (fixed_models [[0, 1, 2]] 2) scenario = Inr im \<and>
         im ''academic_impact'' = Some (PFloat 2) \<and> im ''practical_impact'' = Some (PFloat 2) \<and>
         im ''citation_potential'' = Some (PFloat 2) \<and> im ''overall_impact'' = Some (PFloat 2))"
proof -
  have q: "analyze_content_quality (fixed_models [[0, 1, 2]] 2) two_sentences =
             Inr [''clarity'' \<mapsto> PFloat 1, ''coherence'' \<mapsto> PFloat 4,
                  ''technical_depth'' \<mapsto> PFloat (assess_technical_depth ''A. B''),
                  ''overall_quality'' \<mapsto> PFloat (mean [1, 4, assess_technical_depth ''A. B''])]"
    by (simp add: analyze_content_quality_def Let_def two_sentences_text clarity_012
        two_sentences_coherence fixed_bert)
  show ?thesis
    using clarity_02
    by (simp add: fixed_quality scenario_text q fixed_novelty fixed_methodology fixed_impact
        in_unit_def mean_def)
qed

text \<open>
  Claim C2, amended. For every sub-routine that returns: clarity is the mean standard
  deviation of the encoder's output and coherence the score of the scored text, both at
  least 0; the technical depth lies in [0,1]; \<^verbatim>\<open>overall_quality\<close> is the mean of the three, at least 0, and in [0,1]
  when clarity and coherence are at most 1. The other seven sub-metrics are exactly the
  values that the helper methods return, and \<^verbatim>\<open>overall_novelty\<close>,
  \<^verbatim>\<open>overall_methodology\<close> and \<^verbatim>\<open>overall_impact\<close> are their means, in [0,1] when those
  values are.
\<close>

theorem sub_metric_bounds:
  "(analyze_content_quality m d = Inr cq \<longrightarrow>
      (\<exists>emb c h t.
         bert_embeddings m (scored_text d) = Inr emb \<and> c = calculate_clarity_score emb \<and>
         calculate_coherence_score m (scored_text d) = Inr h \<and>
         t = assess_technical_depth (scored_text d) \<and>
         cq ''clarity'' = Some (PFloat c) \<and> cq ''coherence'' = Some (PFloat h) \<and>
         cq ''technical_depth'' = Some (PFloat t) \<and>
         cq ''overall_quality'' = Some (PFloat (mean [c, h, t])) \<and>
         0 \<le> c \<and> 0 \<le> h \<and> in_unit t \<and> 0 \<le> mean [c, h, t] \<and>
         (c \<le> 1 \<and> h \<le> 1 \<longrightarrow> in_unit (mean [c, h, t])))) \<and>
   (analyze_novelty m d = Inr nv \<longrightarrow>
      (\<exists>emb u i.
         sentence_encode m (scored_text d) = Inr emb \<and> calculate_uniqueness m emb = Inr u \<and>
         assess_innovation m d = Inr i \<and>
         nv ''uniqueness'' = Some (PFloat u) \<and> nv ''innovation'' = Some (PFloat i) \<and>
         nv ''overall_novelty'' = Some (PFloat (mean [u, i])) \<and>
         (in_unit u \<and> in_unit i \<longrightarrow> in_unit (mean [u, i])))) \<and>
   (analyze_methodology m d = Inr me \<longrightarrow>
      (\<exists>r v.
         assess_methodology_robustness m (content d) = Inr r \<and>
         assess_validation_methods m (content d) = Inr v \<and>
         me ''robustness'' = Some (PFloat r) \<and> me ''validation'' = Some (PFloat v) \<and>
         me ''overall_methodology'' = Some (PFloat (mean [r, v])) \<and>
         (in_unit r \<and> in_unit v \<longrightarrow> in_unit (mean [r, v])))) \<and>
   (analyze_impact_potential m d = Inr im \<longrightarrow>
      (\<exists>emb rest a p c.
         use_model m [scored_text d] = Inr (emb # rest) \<and>
         predict_academic_impact m emb = Inr a \<and> predict_practical_impact m d = Inr p \<and>
         predict_citation_potential m d = Inr c \<and>
         im ''academic_impact'' = Some (PFloat a) \<and> im ''practical_impact'' = Some (PFloat p) \<and>
         im ''citation_potential'' = Some (PFloat c) \<and>
         im ''overall_impact'' = Some (PFloat (mean [a, p, c])) \<and>
         (in_unit a \<and> in_unit p \<and> in_unit c \<longrightarrow> in_unit (mean [a, p, c]))))"
proof (intro conjI impI)
  assume a: "analyze_content_quality m d = Inr cq"
  then obtain emb h where
    emb: "bert_embeddings m (scored_text d) = Inr emb" and
    h: "calculate_coherence_score m (scored_text d) = Inr h" and
    cq: "cq = [''clarity'' \<mapsto> PFloat (calculate_clarity_score emb), ''coherence'' \<mapsto> PFloat h,
               ''technical_depth'' \<mapsto> PFloat (assess_technical_depth (scored_text d)),
               ''overall_quality'' \<mapsto>
                 PFloat (mean [calculate_clarity_score emb, h,
                               assess_technical_depth (scored_text d)])]"
    by (auto simp: analyze_content_quality_def Let_def split: sum.splits)
  let ?c = "calculate_clarity_score emb" and ?t = "assess_technical_depth (scored_text d)"
  have c0: "0 \<le> ?c" by (rule clarity_nonneg)
  have h0: "0 \<le> h" using h by (rule coherence_nonneg)
  have t: "in_unit ?t" by (rule depth_unit)
  then have t0: "0 \<le> ?t" by (simp add: in_unit_def)
  have m0: "0 \<le> mean [?c, h, ?t]" using c0 h0 t0 by (rule mean3_nonneg)
  have up: "in_unit (mean [?c, h, ?t])" if "?c \<le> 1 \<and> h \<le> 1"
    using that c0 h0 t by (intro mean3_unit) (simp_all add: in_unit_def)
  show "\<exists>emb c h t.
         bert_embeddings m (scored_text d) = Inr emb \<and> c = calculate_clarity_score emb \<and>
         calculate_coherence_score m (scored_text d) = Inr h \<and>
         t = assess_technical_depth (scored_text d) \<and>
         cq ''clarity'' = Some (PFloat c) \<and> cq ''coherence'' = Some (PFloat h) \<and>
         cq ''technical_depth'' = Some (PFloat t) \<and>
         cq ''overall_quality'' = Some (PFloat (mean [c, h, t])) \<and>
         0 \<le> c \<and> 0 \<le> h \<and> in_unit t \<and> 0 \<le> mean [c, h, t] \<and>
         (c \<le> 1 \<and> h \<le> 1 \<longrightarrow> in_unit (mean [c, h, t]))"
    using emb h c0 h0 t m0 up by (intro exI [of _ emb] exI [of _ ?c] exI [of _ h] exI [of _ ?t])
      (simp add: cq)
next
  assume "analyze_novelty m d = Inr nv"
  then show "\<exists>emb u i.
         sentence_encode m (scored_text d) = Inr emb \<and> calculate_uniqueness m emb = Inr u \<and>
         assess_innovation m d = Inr i \<and>
         nv ''uniqueness'' = Some (PFloat u) \<and> nv ''innovation'' = Some (PFloat i) \<and>
         nv ''overall_novelty'' = Some (PFloat (mean [u, i])) \<and>
         (in_unit u \<and> in_unit i \<longrightarrow> in_unit (mean [u, i]))"
    using mean2_unit by (auto simp: analyze_novelty_def Let_def split: sum.splits)
next
  assume "analyze_methodology m d = Inr me"
  then show "\<exists>r v.
         assess_methodology_robustness m (content d) = Inr r \<and>
         assess_validation_methods m (content d) = Inr v \<and>
         me ''robustness'' = Some (PFloat r) \<and> me ''validation'' = Some (PFloat v) \<and>
         me ''overall_methodology'' = Some (PFloat (mean [r, v])) \<and>
         (in_unit r \<and> in_unit v \<longrightarrow> in_unit (mean [r, v]))"
    using mean2_unit by (auto simp: analyze_methodology_def split: sum.splits)
next
  assume "analyze_impact_potential m d = Inr im"
  then show "\<exists>emb rest a p c.
         use_model m [scored_text d] = Inr (emb # rest) \<and>
         predict_academic_impact m emb = Inr a \<and> predict_practical_impact m d = Inr p \<and>
         predict_citation_potential m d = Inr c \<and>
         im ''academic_impact'' = Some (PFloat a) \<and> im ''practical_impact'' = Some (PFloat p) \<and>
         im ''citation_potential'' = Some (PFloat c) \<and>
         im ''overall_impact'' = Some (PFloat (mean [a, p, c])) \<and>
         (in_unit a \<and> in_unit p \<and> in_unit c \<longrightarrow> in_unit (mean [a, p, c]))"
    using mean3_unit by (auto simp: analyze_impact_potential_def split: sum.splits list.splits)
qed

theorem sub_metric_bounds_witness:
  "analyze_content_quality (fixed_models [[0, 1, 2]] (1 / 2)) scenario
     = Inr (content_quality example_analysis) \<and>
   analyze_novelty (fixed_models [[0, 1, 2]] (1 / 2)) scenario = Inr (novelty example_analysis) \<and>
   analyze_methodology (fixed_models [[0, 1, 2]] (1 / 2)) scenario
     = Inr (methodology example_analysis) \<and>
   analyze_impact_potential (fixed_models [[0, 1, 2]] (1 / 2)) scenario
     = Inr (impact_potential example_analysis) \<and>
   content_quality example_analysis ''clarity'' = Some (PFloat 1) \<and> (1 :: real) \<le> 1 \<and>
   content_quality example_analysis ''coherence'' = Some (PFloat (8 / 10)) \<and>
   (8 / 10 :: real) \<le> 1 \<and>
   content_quality example_analysis ''overall_quality'' = Some (PFloat (6 / 10)) \<and>
   in_unit (6 / 10) \<and>
   novelty example_analysis ''uniqueness'' = Some (PFloat (1 / 2)) \<and>
   novelty example_analysis ''overall_novelty'' = Some (PFloat (1 / 2)) \<and>
   methodology example_analysis ''overall_methodology'' = Some (PFloat (1 / 2)) \<and>
   impact_potential example_analysis ''overall_impact'' = Some (PFloat (1 / 2)) \<and>
   in_unit (1 / 2)"
proof -
  have s: "analyze_content_quality (fixed_models [[0, 1, 2]] (1 / 2)) scenario
             = Inr (content_quality example_analysis)"
      "analyze_novelty (fixed_models [[0, 1, 2]] (1 / 2)) scenario
         = Inr (novelty example_analysis)"
      "analyze_methodology (fixed_models [[0, 1, 2]] (1 / 2)) scenario
         = Inr (methodology example_analysis)"
      "analyze_impact_potential (fixed_models [[0, 1, 2]] (1 / 2)) scenario
         = Inr (impact_potential example_analysis)"
    using analyze_research_score [OF scenario_research] by simp_all
  show ?thesis
    using s sub_metric_bounds [of "fixed_models [[0, 1, 2]] (1 / 2)" scenario
        "content_quality example_analysis" "novelty example_analysis"
        "methodology example_analysis" "impact_potential example_analysis"]
    by (simp add: in_unit_def) (simp add: example_analysis_def)
qed


section \<open>Properties of the research service\<close>

subsection \<open>Update and re-analysis\<close>



lemma other_name_artifact:
  "other_name c \<noteq> ''analysis_results''"
  "other_name c \<noteq> ''embedding_vector''"
  "other_name c \<noteq> ''topic_distribution''"
  by (cases c; simp)+





















subsection \<open>Similar papers\<close>

lemma length_filter_distinct_le:
  assumes "distinct (map f xs)"
  shows "length (filter (\<lambda>x. f x \<in> set ids) xs) \<le> length ids"
proof -
  have d: "distinct (map f (filter (\<lambda>x. f x \<in> set ids) xs))"
    using assms by (rule distinct_map_filter)
  have "length (filter (\<lambda>x. f x \<in> set ids) xs) = length (map f (filter (\<lambda>x. f x \<in> set ids) xs))"
    by simp
  also have "\<dots> = card (set (map f (filter (\<lambda>x. f x \<in> set ids) xs)))"
    using d by (simp only: distinct_card)
  also have "\<dots> \<le> card (set ids)"
    by (rule card_mono) auto
  also have "\<dots> \<le> length ids"
    by (rule card_length)
  finally show ?thesis .
qed

lemma length_slice_to: "0 \<le> limit \<Longrightarrow> int (length (slice_to limit xs)) \<le> limit"
  by (simp add: slice_to_def)

lemma set_slice_to: "set (slice_to limit xs) \<subseteq> set xs"
  by (auto simp: slice_to_def dest: in_set_takeD)

lemma library_distinct: "distinct (map rid library)"
  by (simp add: library_def paper_def)

lemma library_similar: "find_similar (fixed_index [1, 2, 4]) library 1 1 = Inr [paper 2 [1]]"
  by (simp add: find_similar_def library_def get_def paper_def fixed_index_def slice_to_def Let_def)

lemma library_no_vector: "find_similar (fixed_index [1, 2, 4]) library 3 1 = Inr []"
  by (simp add: find_similar_def library_def get_def paper_def)

lemma library_absent: "find_similar (fixed_index [1, 2, 4]) library 9 1 = Inr []"
  by (simp add: find_similar_def library_def get_def paper_def)

text \<open>
  Claim C10 says that \<^verbatim>\<open>find_similar\<close> returns at most \<open>limit\<close> papers for every limit.
  The limit is an unchecked integer of the request: for a limit of -1 the query asks for
  no hit and the call returns the empty list, which has more than -1 papers.
\<close>

theorem find_similar_negative_limit:
  "distinct (map rid library) \<and>
   (\<exists>rs. find_similar (fixed_index [1, 2, 4]) library 1 (- 1) = Inr rs \<and>
         \<not> int (length rs) \<le> - 1)"
  by (simp add: find_similar_def library_def get_def paper_def fixed_index_def slice_to_def Let_def)

text \<open>
  Claim C10, amended. In a table whose identifiers are distinct (the primary key), a list
  that \<^verbatim>\<open>find_similar\<close> returns never holds the queried paper, and holds at most \<open>limit\<close>
  papers when the limit is not negative; the call returns the empty list when the queried
  paper does not exist or has no stored embedding vector.
\<close>

theorem find_similar_excludes_query_and_respects_limit:
  assumes "distinct (map rid db)"
  shows "(\<forall>rs. find_similar es db research_id limit = Inr rs \<longrightarrow>
            research_id \<notin> rid ` set rs \<and> (0 \<le> limit \<longrightarrow> int (length rs) \<le> limit)) \<and>
         (get db research_id = None \<or>
          (\<exists>r. get db research_id = Some r \<and> embedding_vector r = [])
            \<longrightarrow> find_similar es db research_id limit = Inr [])"
proof -
  have a: "research_id \<notin> rid ` set rs \<and> (0 \<le> limit \<longrightarrow> int (length rs) \<le> limit)"
    if rs: "find_similar es db research_id limit = Inr rs" for rs
  proof (cases "get db research_id")
    case None
    with rs show ?thesis by (simp add: find_similar_def)
  next
    case (Some r)
    show ?thesis
    proof (cases "embedding_vector r = []")
      case True
      with rs Some show ?thesis by (simp add: find_similar_def)
    next
      case False
      with rs Some obtain hits where
        hits: "es_search es (embedding_vector r) (limit + 1) = Inr hits" and
        eq: "rs = filter (\<lambda>x. rid x \<in> set (slice_to limit (filter (\<lambda>h. h \<noteq> research_id) hits))) db"
        by (auto simp: find_similar_def Let_def split: sum.splits)
      let ?ids = "slice_to limit (filter (\<lambda>h. h \<noteq> research_id) hits)"
      have "research_id \<notin> set ?ids"
        using set_slice_to [of limit "filter (\<lambda>h. h \<noteq> research_id) hits"] by auto
      then have one: "research_id \<notin> rid ` set rs"
        by (auto simp: eq)
      have "length rs \<le> length ?ids"
        unfolding eq using assms by (rule length_filter_distinct_le)
      then have two: "0 \<le> limit \<longrightarrow> int (length rs) \<le> limit"
        using length_slice_to [of limit "filter (\<lambda>h. h \<noteq> research_id) hits"] by auto
      from one two show ?thesis by blast
    qed
  qed
  have b: "find_similar es db research_id limit = Inr []"
    if "get db research_id = None \<or> (\<exists>r. get db research_id = Some r \<and> embedding_vector r = [])"
    using that by (auto simp: find_similar_def)
  from a b show ?thesis by blast
qed

theorem find_similar_excludes_query_and_respects_limit_witness:
  "distinct (map rid library) \<and>
   find_similar (fixed_index [1, 2, 4]) library 1 1 = Inr [paper 2 [1]] \<and>
   1 \<notin> rid ` set [paper 2 [1]] \<and> int (length [paper 2 [1]]) \<le> 1 \<and>
   get library 9 = None \<and> find_similar (fixed_index [1, 2, 4]) library 9 1 = Inr [] \<and>
   get library 3 = Some (paper 3 []) \<and> find_similar (fixed_index [1, 2, 4]) library 3 1 = Inr []"
  using find_similar_excludes_query_and_respects_limit [OF library_distinct,
      of "fixed_index [1, 2, 4]" 1 1]
    library_similar library_no_vector library_absent library_distinct
  by (simp add: library_def get_def paper_def)

end
